theory Spec2Isabelle
  imports Main "HOL-Library.Sublist"
begin

section \<open>The script \<^verbatim>\<open>solutions/sentinel1_image.py\<close>\<close>

text \<open>
  The whole program is four statements:
  \<^verbatim>\<open>
  eopatch = EOPatch.load('../data/sentinel1_sample', lazy_loading=True)
  reactiv = ReactivTask((FeatureType.DATA_TIMELESS, 'speckle_variability'),
                        data_feature=(FeatureType.DATA, 'IW_VV'),
                        mask_feature=(FeatureType.MASK, 'IS_DATA'))
  eopatch = reactiv.execute(eopatch)
  plot_results(eopatch[(FeatureType.DATA_TIMELESS, 'speckle_variability')])
  \<close>
  It imports nothing and defines no function: the names \<^verbatim>\<open>EOPatch\<close>,
  \<^verbatim>\<open>FeatureType\<close>, \<^verbatim>\<open>ReactivTask\<close> and \<^verbatim>\<open>plot_results\<close> come from the
  environment the script is run in. The embedding therefore takes that environment as a
  parameter, threads an abstract world through every library call (the file system, the
  display, the library's own state), and keeps a trace of the calls the script makes.
\<close>

subsection \<open>Values\<close>

text \<open>
  A feature is the tuple \<^verbatim>\<open>(FeatureType.X, 'name')\<close>. The enumeration
  \<^verbatim>\<open>FeatureType\<close> belongs to the library, so its members are values of a type
  parameter \<open>'f\<close>.
\<close>

type_synonym 'f feature = "'f \<times> string"

text \<open>
  Modelled from the spec: the container class (\<^verbatim>\<open>EOPatch\<close>) is not part of the
  repository. The spec describes it as a structure ``keyed by (category, name) pairs, each
  mapping to an array-like raster layer''; it is a partial map from features to layers of
  a type parameter \<open>'v\<close>.
\<close>

type_synonym ('f, 'v) eopatch = "'f feature \<Rightarrow> 'v option"

text \<open>
  Exceptions: the two the interpreter raises for the script's own expressions (an unbound
  name, a key missing from the container) and whatever the library raises (\<open>'x\<close>).
  Library calls return the same type, so that an exception passes through the script as
  the value it is.
\<close>

datatype ('f, 'x) exn =
    NameError string
  | KeyError "'f feature"
  | LibraryError 'x

text \<open>How a computation ends: with a value, with an exception, or never.\<close>

datatype ('e, 'a) result = Returned 'a | Raised 'e | Diverged

subsection \<open>The environment\<close>

text \<open>
  A library call takes the world and either never returns (\<open>None\<close>) or returns an
  exception or a value together with the world it leaves behind.
\<close>

type_synonym ('f, 'x, 'w, 'a) extern = "'w \<Rightarrow> ((('f, 'x) exn + 'a) \<times> 'w) option"

text \<open>
  \<^verbatim>\<open>EOPatch.load(path, lazy_loading=flag)\<close>: the class object bound to
  \<^verbatim>\<open>EOPatch\<close> supplies \<open>load\<close>.
\<close>

record ('f, 'v, 'x, 'w) EOPatch_cls =
  load :: "string \<Rightarrow> bool \<Rightarrow> ('f, 'x, 'w, ('f, 'v) eopatch) extern"

text \<open>The three members of \<^verbatim>\<open>FeatureType\<close> the script refers to.\<close>

record 'f FeatureType_cls =
  DATA :: 'f
  MASK :: 'f
  DATA_TIMELESS :: 'f

text \<open>A task object supplies \<^verbatim>\<open>execute\<close>, taking and returning a container.\<close>

record ('f, 'v, 'x, 'w) task =
  execute :: "('f, 'v) eopatch \<Rightarrow> ('f, 'x, 'w, ('f, 'v) eopatch) extern"

text \<open>
  The four names the script uses without defining them. A name the environment does not
  bind is \<open>None\<close>. \<^verbatim>\<open>ReactivTask\<close> is called with positional and keyword
  arguments, all of them features.
\<close>

record ('f, 'v, 'x, 'w) env =
  EOPatch :: "('f, 'v, 'x, 'w) EOPatch_cls option"
  FeatureType :: "'f FeatureType_cls option"
  ReactivTask :: "('f feature list \<Rightarrow> (string \<times> 'f feature) list \<Rightarrow>
                   ('f, 'x, 'w, ('f, 'v, 'x, 'w) task) extern) option"
  plot_results :: "('v \<Rightarrow> ('f, 'x, 'w, unit) extern) option"

subsection \<open>The trace and the state of a run\<close>

text \<open>
  One constructor for each operation the script performs on library objects, with the
  arguments it passes. The subscript \<^verbatim>\<open>eopatch[key]\<close> is the script's only access to
  a container.
\<close>

datatype ('f, 'v) call =
    Load string bool
  | Construct "'f feature list" "(string \<times> 'f feature) list"
  | Execute "('f, 'v) eopatch"
  | GetItem "('f, 'v) eopatch" "'f feature"
  | Plot 'v

datatype kind = KLoad | KConstruct | KExecute | KGetItem | KPlot

fun kind_of :: "('f, 'v) call \<Rightarrow> kind" where
  "kind_of (Load _ _) = KLoad"
| "kind_of (Construct _ _) = KConstruct"
| "kind_of (Execute _) = KExecute"
| "kind_of (GetItem _ _) = KGetItem"
| "kind_of (Plot _) = KPlot"

text \<open>A trace entry is a call and how it ended.\<close>

type_synonym ('f, 'v, 'x) entry = "('f, 'v) call \<times> (('f, 'x) exn, unit) result"

record ('f, 'v, 'x, 'w) run_state =
  world :: 'w
  trace :: "('f, 'v, 'x) entry list"

type_synonym ('f, 'v, 'x, 'w, 'a) comp =
  "('f, 'v, 'x, 'w) run_state \<Rightarrow> (('f, 'x) exn, 'a) result \<times> ('f, 'v, 'x, 'w) run_state"

subsection \<open>How the interpreter runs the statements\<close>

text \<open>Sequencing: an exception or a call that never returns ends the run there.\<close>

definition and_then ::
  "('f, 'v, 'x, 'w, 'a) comp \<Rightarrow> ('a \<Rightarrow> ('f, 'v, 'x, 'w, 'b) comp) \<Rightarrow> ('f, 'v, 'x, 'w, 'b) comp"
where
  "and_then m f s =
     (case m s of
        (Returned a, s') \<Rightarrow> f a s'
      | (Raised e, s') \<Rightarrow> (Raised e, s')
      | (Diverged, s') \<Rightarrow> (Diverged, s'))"

text \<open>Reading a global name: \<^verbatim>\<open>NameError\<close> when the environment does not bind it.\<close>

definition lookup_name :: "string \<Rightarrow> 'a option \<Rightarrow> ('f, 'v, 'x, 'w, 'a) comp" where
  "lookup_name n binding s =
     (case binding of
        None \<Rightarrow> (Raised (NameError n), s)
      | Some a \<Rightarrow> (Returned a, s))"

text \<open>
  A library call: it is appended to the trace with the way it ended, and the world it
  leaves behind becomes the current one.
\<close>

definition extern_call ::
  "('f, 'v) call \<Rightarrow> ('f, 'x, 'w, 'a) extern \<Rightarrow> ('f, 'v, 'x, 'w, 'a) comp"
where
  "extern_call c f s =
     (case f (world s) of
        None \<Rightarrow> (Diverged, s\<lparr>trace := trace s @ [(c, Diverged)]\<rparr>)
      | Some (Inl e, w') \<Rightarrow> (Raised e, \<lparr>world = w', trace = trace s @ [(c, Raised e)]\<rparr>)
      | Some (Inr a, w') \<Rightarrow> (Returned a, \<lparr>world = w', trace = trace s @ [(c, Returned ())]\<rparr>))"

text \<open>
  The tuple \<^verbatim>\<open>(FeatureType.X, 'name')\<close>: the name \<^verbatim>\<open>FeatureType\<close> is read each
  time the expression is evaluated.
\<close>

definition feature ::
  "('f, 'v, 'x, 'w, 'z) env_scheme \<Rightarrow> ('f FeatureType_cls \<Rightarrow> 'f) \<Rightarrow> string \<Rightarrow>
   ('f, 'v, 'x, 'w, 'f feature) comp"
where
  "feature env member nm =
     and_then (lookup_name ''FeatureType'' (FeatureType env)) (\<lambda>ft s. (Returned (member ft, nm), s))"

text \<open>
  Modelled from the spec: \<^verbatim>\<open>eopatch[key]\<close> is the container's own subscript method,
  which is not part of the repository. The container is keyed by features, and the spec
  lists ``missing layer keys'' among the failures: a key the container does not hold
  raises \<^verbatim>\<open>KeyError\<close>, any other returns its layer. It does not touch the world.
\<close>

definition getitem :: "('f, 'v) eopatch \<Rightarrow> 'f feature \<Rightarrow> ('f, 'v, 'x, 'w, 'v) comp" where
  "getitem eopatch key =
     extern_call (GetItem eopatch key)
       (\<lambda>w. Some (case eopatch key of None \<Rightarrow> Inl (KeyError key) | Some layer \<Rightarrow> Inr layer, w))"

text \<open>
  The four library calls, each recorded with the arguments the library receives:
  \<^verbatim>\<open>EOPatch.load(path, lazy_loading=flag)\<close>, \<^verbatim>\<open>ReactivTask(*args, **kwargs)\<close>,
  \<^verbatim>\<open>reactiv.execute(eopatch)\<close> and \<^verbatim>\<open>plot_results(layer)\<close>.
\<close>

definition call_load ::
  "('f, 'v, 'x, 'w) EOPatch_cls \<Rightarrow> string \<Rightarrow> bool \<Rightarrow> ('f, 'v, 'x, 'w, ('f, 'v) eopatch) comp"
where
  "call_load cls path lazy_loading = extern_call (Load path lazy_loading) (load cls path lazy_loading)"

definition call_constructor ::
  "('f feature list \<Rightarrow> (string \<times> 'f feature) list \<Rightarrow> ('f, 'x, 'w, ('f, 'v, 'x, 'w) task) extern) \<Rightarrow>
   'f feature list \<Rightarrow> (string \<times> 'f feature) list \<Rightarrow> ('f, 'v, 'x, 'w, ('f, 'v, 'x, 'w) task) comp"
where
  "call_constructor ctor args kwargs = extern_call (Construct args kwargs) (ctor args kwargs)"

definition call_execute ::
  "('f, 'v, 'x, 'w) task \<Rightarrow> ('f, 'v) eopatch \<Rightarrow> ('f, 'v, 'x, 'w, ('f, 'v) eopatch) comp"
where
  "call_execute reactiv eopatch = extern_call (Execute eopatch) (execute reactiv eopatch)"

definition call_plot :: "('v \<Rightarrow> ('f, 'x, 'w, unit) extern) \<Rightarrow> 'v \<Rightarrow> ('f, 'v, 'x, 'w, unit) comp" where
  "call_plot plot layer = extern_call (Plot layer) (plot layer)"

subsection \<open>The script\<close>

text \<open>
  Python evaluates the callee of a call before its arguments, and the arguments from left
  to right: on line 5 \<^verbatim>\<open>ReactivTask\<close> is read before the three tuples are built, on
  line 13 \<^verbatim>\<open>plot_results\<close> is read before the subscript is evaluated. The second
  assignment to \<^verbatim>\<open>eopatch\<close> rebinds the variable, as the inner \<open>eopatch\<close> does here.
  The value of the last call is discarded. A run starts with an empty trace.
\<close>

definition script ::
  "('f, 'v, 'x, 'w, 'z) env_scheme \<Rightarrow> 'w \<Rightarrow>
   (('f, 'x) exn, unit) result \<times> ('f, 'v, 'x, 'w) run_state"
where
  "script env w =
    (and_then (lookup_name ''EOPatch'' (EOPatch env)) (\<lambda>cls.
     and_then (call_load cls ''../data/sentinel1_sample'' True) (\<lambda>eopatch.
     and_then (lookup_name ''ReactivTask'' (ReactivTask env)) (\<lambda>ctor.
     and_then (feature env DATA_TIMELESS ''speckle_variability'') (\<lambda>out.
     and_then (feature env DATA ''IW_VV'') (\<lambda>data_feature.
     and_then (feature env MASK ''IS_DATA'') (\<lambda>mask_feature.
     and_then (call_constructor ctor [out]
                 [(''data_feature'', data_feature), (''mask_feature'', mask_feature)]) (\<lambda>reactiv.
     and_then (call_execute reactiv eopatch) (\<lambda>eopatch.
     and_then (lookup_name ''plot_results'' (plot_results env)) (\<lambda>plot.
     and_then (feature env DATA_TIMELESS ''speckle_variability'') (\<lambda>key.
     and_then (getitem eopatch key) (\<lambda>layer.
     call_plot plot layer)))))))))))) \<lparr>world = w, trace = []\<rparr>"

subsection \<open>The precondition on the library that one property needs\<close>

text \<open>
  ``The task's execute method adds its configured output key to the container it
  returns'': whenever the constructor bound to \<^verbatim>\<open>ReactivTask\<close> has built a task from
  a first positional argument \<open>out\<close>, every container that this task's \<open>execute\<close>
  returns holds a layer under \<open>out\<close>.
\<close>

definition execute_adds_output :: "('f, 'v, 'x, 'w, 'z) env_scheme \<Rightarrow> bool" where
  "execute_adds_output env \<longleftrightarrow>
     (\<forall>ctor out args kwargs w reactiv w' eopatch w1 eopatch' w2.
        ReactivTask env = Some ctor \<longrightarrow>
        ctor (out # args) kwargs w = Some (Inr reactiv, w') \<longrightarrow>
        execute reactiv eopatch w1 = Some (Inr eopatch', w2) \<longrightarrow>
        eopatch' out \<noteq> None)"

subsection \<open>A sample environment\<close>

text \<open>
  A small library to run the script against. Feature types are strings, layers are
  integers, library exceptions are messages, and the world is the disk: a list of
  directories with the container stored in each. \<open>load\<close> fails on a directory that is
  not there; the task multiplies its data layer by its mask layer, stores the product
  under its output key in a copy of the container, and fails on a container that lacks
  one of its inputs; plotting always succeeds, or, for \<open>hanging_plot\<close>, never returns.
\<close>

type_synonym disk = "(string \<times> (string, int) eopatch) list"

definition sample_features :: "string FeatureType_cls" where
  "sample_features = \<lparr>DATA = ''data'', MASK = ''mask'', DATA_TIMELESS = ''data_timeless''\<rparr>"

definition sample_cls :: "(string, int, string, disk) EOPatch_cls" where
  "sample_cls =
     \<lparr>load = (\<lambda>path lazy_loading w.
        Some (case map_of w path of
                None \<Rightarrow> Inl (LibraryError ''no such directory'')
              | Some eopatch \<Rightarrow> Inr eopatch, w))\<rparr>"

definition sample_task ::
  "string feature \<Rightarrow> string feature \<Rightarrow> string feature \<Rightarrow> (string, int, string, disk) task"
where
  "sample_task out data_feature mask_feature =
     \<lparr>execute = (\<lambda>eopatch w.
        Some (case (eopatch data_feature, eopatch mask_feature) of
                (Some d, Some m) \<Rightarrow> Inr (eopatch(out \<mapsto> d * m))
              | (None, _) \<Rightarrow> Inl (KeyError data_feature)
              | (_, None) \<Rightarrow> Inl (KeyError mask_feature), w))\<rparr>"

definition sample_ctor ::
  "string feature list \<Rightarrow> (string \<times> string feature) list \<Rightarrow>
   (string, string, disk, (string, int, string, disk) task) extern"
where
  "sample_ctor args kwargs w =
     Some (case (args, map_of kwargs ''data_feature'', map_of kwargs ''mask_feature'') of
             ([out], Some d, Some m) \<Rightarrow> Inr (sample_task out d m)
           | _ \<Rightarrow> Inl (LibraryError ''TypeError''), w)"

definition sample_plot :: "int \<Rightarrow> (string, string, disk, unit) extern" where
  "sample_plot layer w = Some (Inr (), w)"

definition hanging_plot :: "int \<Rightarrow> (string, string, disk, unit) extern" where
  "hanging_plot layer w = None"

definition sample_env :: "(string, int, string, disk) env" where
  "sample_env =
     \<lparr>EOPatch = Some sample_cls,
      FeatureType = Some sample_features,
      ReactivTask = Some sample_ctor,
      plot_results = Some sample_plot\<rparr>"

text \<open>
  Three disks: one with the sample container, one whose container lacks the mask layer,
  and (as \<open>[]\<close>) an empty one. \<open>plotted_patch\<close> is the container the sample task
  returns for \<open>sample_patch\<close>.
\<close>

definition sample_patch :: "(string, int) eopatch" where
  "sample_patch = [(''data'', ''IW_VV'') \<mapsto> 6, (''mask'', ''IS_DATA'') \<mapsto> 1]"

definition sample_disk :: disk where
  "sample_disk = [(''../data/sentinel1_sample'', sample_patch)]"

definition unmasked_patch :: "(string, int) eopatch" where
  "unmasked_patch = [(''data'', ''IW_VV'') \<mapsto> 6]"

definition unmasked_disk :: disk where
  "unmasked_disk = [(''../data/sentinel1_sample'', unmasked_patch)]"

definition plotted_patch :: "(string, int) eopatch" where
  "plotted_patch = sample_patch((''data_timeless'', ''speckle_variability'') \<mapsto> 6)"

definition sample_trace :: "(string, int, string) entry list" where
  "sample_trace =
     [(Load ''../data/sentinel1_sample'' True, Returned ()),
      (Construct [(''data_timeless'', ''speckle_variability'')]
         [(''data_feature'', (''data'', ''IW_VV'')), (''mask_feature'', (''mask'', ''IS_DATA''))],
       Returned ()),
      (Execute sample_patch, Returned ()),
      (GetItem plotted_patch (''data_timeless'', ''speckle_variability''), Returned ()),
      (Plot 6, Returned ())]"

subsection \<open>A library whose calls may have several outcomes\<close>

text \<open>
  To ask whether two runs of the script can differ, the library has to be able to behave
  in more than one way. Here a library call relates a world to the set of its possible
  outcomes (\<open>None\<close> for a call that never returns, as before), and a run of the script
  is one element of a set of possible runs. The four bindings have the shape they have in
  \<open>env\<close>, with sets of outcomes in place of single ones.
\<close>

type_synonym ('f, 'x, 'w, 'a) extern_rel = "'w \<Rightarrow> ((('f, 'x) exn + 'a) \<times> 'w) option set"

record ('f, 'v, 'x, 'w) EOPatch_rel_cls =
  load_rel :: "string \<Rightarrow> bool \<Rightarrow> ('f, 'x, 'w, ('f, 'v) eopatch) extern_rel"

record ('f, 'v, 'x, 'w) task_rel =
  execute_rel :: "('f, 'v) eopatch \<Rightarrow> ('f, 'x, 'w, ('f, 'v) eopatch) extern_rel"

record ('f, 'v, 'x, 'w) env_rel =
  EOPatch_rel :: "('f, 'v, 'x, 'w) EOPatch_rel_cls option"
  FeatureType_rel :: "'f FeatureType_cls option"
  ReactivTask_rel :: "('f feature list \<Rightarrow> (string \<times> 'f feature) list \<Rightarrow>
                       ('f, 'x, 'w, ('f, 'v, 'x, 'w) task_rel) extern_rel) option"
  plot_results_rel :: "('v \<Rightarrow> ('f, 'x, 'w, unit) extern_rel) option"

type_synonym ('f, 'v, 'x, 'w, 'a) comp_rel =
  "('f, 'v, 'x, 'w) run_state \<Rightarrow> ((('f, 'x) exn, 'a) result \<times> ('f, 'v, 'x, 'w) run_state) set"

text \<open>
  Sequencing continues from every outcome of the first step that returned a value. A step
  of the interpreter itself (reading a name, building a tuple, the subscript) has the one
  outcome it has in \<open>script\<close>. A library call is recorded, for each outcome the library
  may give, exactly as \<open>extern_call\<close> records it.
\<close>

definition and_then_rel ::
  "('f, 'v, 'x, 'w, 'a) comp_rel \<Rightarrow> ('a \<Rightarrow> ('f, 'v, 'x, 'w, 'b) comp_rel) \<Rightarrow>
   ('f, 'v, 'x, 'w, 'b) comp_rel"
where
  "and_then_rel m f s =
     (\<Union>out \<in> m s.
        case out of
          (Returned a, s') \<Rightarrow> f a s'
        | (Raised e, s') \<Rightarrow> {(Raised e, s')}
        | (Diverged, s') \<Rightarrow> {(Diverged, s')})"

definition interpreter_step :: "('f, 'v, 'x, 'w, 'a) comp \<Rightarrow> ('f, 'v, 'x, 'w, 'a) comp_rel" where
  "interpreter_step m s = {m s}"

definition extern_call_rel ::
  "('f, 'v) call \<Rightarrow> ('f, 'x, 'w, 'a) extern_rel \<Rightarrow> ('f, 'v, 'x, 'w, 'a) comp_rel"
where
  "extern_call_rel c f s = (\<lambda>outcome. extern_call c (\<lambda>w. outcome) s) ` f (world s)"

definition feature_rel ::
  "('f, 'v, 'x, 'w, 'z) env_rel_scheme \<Rightarrow> ('f FeatureType_cls \<Rightarrow> 'f) \<Rightarrow> string \<Rightarrow>
   ('f, 'v, 'x, 'w, 'f feature) comp_rel"
where
  "feature_rel env member nm =
     interpreter_step
       (and_then (lookup_name ''FeatureType'' (FeatureType_rel env))
          (\<lambda>ft s. (Returned (member ft, nm), s)))"

definition call_load_rel ::
  "('f, 'v, 'x, 'w) EOPatch_rel_cls \<Rightarrow> string \<Rightarrow> bool \<Rightarrow>
   ('f, 'v, 'x, 'w, ('f, 'v) eopatch) comp_rel"
where
  "call_load_rel cls path lazy_loading =
     extern_call_rel (Load path lazy_loading) (load_rel cls path lazy_loading)"

definition call_constructor_rel ::
  "('f feature list \<Rightarrow> (string \<times> 'f feature) list \<Rightarrow>
      ('f, 'x, 'w, ('f, 'v, 'x, 'w) task_rel) extern_rel) \<Rightarrow>
   'f feature list \<Rightarrow> (string \<times> 'f feature) list \<Rightarrow>
   ('f, 'v, 'x, 'w, ('f, 'v, 'x, 'w) task_rel) comp_rel"
where
  "call_constructor_rel ctor args kwargs =
     extern_call_rel (Construct args kwargs) (ctor args kwargs)"

definition call_execute_rel ::
  "('f, 'v, 'x, 'w) task_rel \<Rightarrow> ('f, 'v) eopatch \<Rightarrow> ('f, 'v, 'x, 'w, ('f, 'v) eopatch) comp_rel"
where
  "call_execute_rel reactiv eopatch =
     extern_call_rel (Execute eopatch) (execute_rel reactiv eopatch)"

definition call_plot_rel ::
  "('v \<Rightarrow> ('f, 'x, 'w, unit) extern_rel) \<Rightarrow> 'v \<Rightarrow> ('f, 'v, 'x, 'w, unit) comp_rel"
where
  "call_plot_rel plot layer = extern_call_rel (Plot layer) (plot layer)"

text \<open>The script again, statement by statement as in \<open>script\<close>, over such a library.\<close>

definition script_rel ::
  "('f, 'v, 'x, 'w, 'z) env_rel_scheme \<Rightarrow> 'w \<Rightarrow>
   ((('f, 'x) exn, unit) result \<times> ('f, 'v, 'x, 'w) run_state) set"
where
  "script_rel env w =
    (and_then_rel (interpreter_step (lookup_name ''EOPatch'' (EOPatch_rel env))) (\<lambda>cls.
     and_then_rel (call_load_rel cls ''../data/sentinel1_sample'' True) (\<lambda>eopatch.
     and_then_rel (interpreter_step (lookup_name ''ReactivTask'' (ReactivTask_rel env))) (\<lambda>ctor.
     and_then_rel (feature_rel env DATA_TIMELESS ''speckle_variability'') (\<lambda>out.
     and_then_rel (feature_rel env DATA ''IW_VV'') (\<lambda>data_feature.
     and_then_rel (feature_rel env MASK ''IS_DATA'') (\<lambda>mask_feature.
     and_then_rel (call_constructor_rel ctor [out]
                     [(''data_feature'', data_feature), (''mask_feature'', mask_feature)]) (\<lambda>reactiv.
     and_then_rel (call_execute_rel reactiv eopatch) (\<lambda>eopatch.
     and_then_rel (interpreter_step (lookup_name ''plot_results'' (plot_results_rel env))) (\<lambda>plot.
     and_then_rel (feature_rel env DATA_TIMELESS ''speckle_variability'') (\<lambda>key.
     and_then_rel (interpreter_step (getitem eopatch key)) (\<lambda>layer.
     call_plot_rel plot layer)))))))))))) \<lparr>world = w, trace = []\<rparr>"

text \<open>
  A set of outcomes is \<open>functional\<close> when it holds at most one. The library has a fixed
  behaviour when every call it offers the script has at most one outcome for given
  arguments and world: \<open>load\<close>, the task constructor, \<open>execute\<close> of every task the
  constructor can return, and \<open>plot_results\<close>.
\<close>

definition functional :: "'a set \<Rightarrow> bool" where
  "functional S \<longleftrightarrow> (\<forall>x \<in> S. \<forall>y \<in> S. x = y)"

definition fixed_behaviour :: "('f, 'v, 'x, 'w, 'z) env_rel_scheme \<Rightarrow> bool" where
  "fixed_behaviour env \<longleftrightarrow>
     (\<forall>cls path lazy_loading w.
        EOPatch_rel env = Some cls \<longrightarrow> functional (load_rel cls path lazy_loading w)) \<and>
     (\<forall>ctor args kwargs w.
        ReactivTask_rel env = Some ctor \<longrightarrow>
        functional (ctor args kwargs w) \<and>
        (\<forall>reactiv w' eopatch w1.
           Some (Inr reactiv, w') \<in> ctor args kwargs w \<longrightarrow>
           functional (execute_rel reactiv eopatch w1))) \<and>
     (\<forall>plot layer w.
        plot_results_rel env = Some plot \<longrightarrow> functional (plot layer w))"

text \<open>
  An environment of \<open>env\<close> read as such a library: each call has the one outcome it has
  there. \<open>flaky_library\<close> is the sample library with a \<open>load\<close> that may also fail on a
  directory that is there.
\<close>

definition as_task_rel :: "('f, 'v, 'x, 'w) task \<Rightarrow> ('f, 'v, 'x, 'w) task_rel" where
  "as_task_rel reactiv = \<lparr>execute_rel = (\<lambda>eopatch w. {execute reactiv eopatch w})\<rparr>"

definition as_library :: "('f, 'v, 'x, 'w) env \<Rightarrow> ('f, 'v, 'x, 'w) env_rel" where
  "as_library env =
     \<lparr>EOPatch_rel =
        map_option (\<lambda>cls. \<lparr>load_rel = (\<lambda>path lazy_loading w. {load cls path lazy_loading w})\<rparr>)
          (EOPatch env),
      FeatureType_rel = FeatureType env,
      ReactivTask_rel =
        map_option
          (\<lambda>ctor args kwargs w.
             {case ctor args kwargs w of
                None \<Rightarrow> None
              | Some (Inl e, w') \<Rightarrow> Some (Inl e, w')
              | Some (Inr reactiv, w') \<Rightarrow> Some (Inr (as_task_rel reactiv), w')})
          (ReactivTask env),
      plot_results_rel = map_option (\<lambda>plot layer w. {plot layer w}) (plot_results env)\<rparr>"

definition flaky_library :: "(string, int, string, disk) env_rel" where
  "flaky_library =
     (as_library sample_env)
       \<lparr>EOPatch_rel := Some
          \<lparr>load_rel = (\<lambda>path lazy_loading w.
             {load sample_cls path lazy_loading w,
              Some (Inl (LibraryError ''read error''), w)})\<rparr>\<rparr>"

section \<open>Every run of the script\<close>

lemmas script_simps =
  script_def and_then_def lookup_name_def extern_call_def feature_def getitem_def
  call_load_def call_constructor_def call_execute_def call_plot_def

text \<open>
  The script has no branch of its own, so a run is determined by the first step that does
  not return: an unbound name, a call that raises, a call that never returns, or the
  normal end. The rule lists the fourteen ways a run can go, each with what the
  library did and what the script leaves behind.
\<close>

lemma script_cases:
  fixes env :: "('f, 'v, 'x, 'w, 'z) env_scheme"
  defines "path \<equiv> ''../data/sentinel1_sample''"
    and "out \<equiv> \<lambda>ft. (DATA_TIMELESS ft, ''speckle_variability'')"
    and "named \<equiv> \<lambda>ft. [(''data_feature'', (DATA ft, ''IW_VV'')), (''mask_feature'', (MASK ft, ''IS_DATA''))]"
  obtains
    (EOPatch_unbound)
      "EOPatch env = None"
      "script env w = (Raised (NameError ''EOPatch''), \<lparr>world = w, trace = []\<rparr>)"
  | (load_hangs) cls where
      "EOPatch env = Some cls"
      "load cls path True w = None"
      "script env w = (Diverged, \<lparr>world = w, trace = [(Load path True, Diverged)]\<rparr>)"
  | (load_raises) cls e w1 where
      "EOPatch env = Some cls"
      "load cls path True w = Some (Inl e, w1)"
      "script env w = (Raised e, \<lparr>world = w1, trace = [(Load path True, Raised e)]\<rparr>)"
  | (ReactivTask_unbound) cls loaded w1 where
      "EOPatch env = Some cls"
      "load cls path True w = Some (Inr loaded, w1)"
      "ReactivTask env = None"
      "script env w = (Raised (NameError ''ReactivTask''),
         \<lparr>world = w1, trace = [(Load path True, Returned ())]\<rparr>)"
  | (FeatureType_unbound) cls loaded w1 ctor where
      "EOPatch env = Some cls"
      "load cls path True w = Some (Inr loaded, w1)"
      "ReactivTask env = Some ctor"
      "FeatureType env = None"
      "script env w = (Raised (NameError ''FeatureType''),
         \<lparr>world = w1, trace = [(Load path True, Returned ())]\<rparr>)"
  | (constructor_hangs) cls loaded w1 ctor ft where
      "EOPatch env = Some cls"
      "load cls path True w = Some (Inr loaded, w1)"
      "ReactivTask env = Some ctor"
      "FeatureType env = Some ft"
      "ctor [out ft] (named ft) w1 = None"
      "script env w = (Diverged, \<lparr>world = w1, trace =
         [(Load path True, Returned ()), (Construct [out ft] (named ft), Diverged)]\<rparr>)"
  | (constructor_raises) cls loaded w1 ctor ft e w2 where
      "EOPatch env = Some cls"
      "load cls path True w = Some (Inr loaded, w1)"
      "ReactivTask env = Some ctor"
      "FeatureType env = Some ft"
      "ctor [out ft] (named ft) w1 = Some (Inl e, w2)"
      "script env w = (Raised e, \<lparr>world = w2, trace =
         [(Load path True, Returned ()), (Construct [out ft] (named ft), Raised e)]\<rparr>)"
  | (execute_hangs) cls loaded w1 ctor ft reactiv w2 where
      "EOPatch env = Some cls"
      "load cls path True w = Some (Inr loaded, w1)"
      "ReactivTask env = Some ctor"
      "FeatureType env = Some ft"
      "ctor [out ft] (named ft) w1 = Some (Inr reactiv, w2)"
      "execute reactiv loaded w2 = None"
      "script env w = (Diverged, \<lparr>world = w2, trace =
         [(Load path True, Returned ()), (Construct [out ft] (named ft), Returned ()),
          (Execute loaded, Diverged)]\<rparr>)"
  | (execute_raises) cls loaded w1 ctor ft reactiv w2 e w3 where
      "EOPatch env = Some cls"
      "load cls path True w = Some (Inr loaded, w1)"
      "ReactivTask env = Some ctor"
      "FeatureType env = Some ft"
      "ctor [out ft] (named ft) w1 = Some (Inr reactiv, w2)"
      "execute reactiv loaded w2 = Some (Inl e, w3)"
      "script env w = (Raised e, \<lparr>world = w3, trace =
         [(Load path True, Returned ()), (Construct [out ft] (named ft), Returned ()),
          (Execute loaded, Raised e)]\<rparr>)"
  | (plot_results_unbound) cls loaded w1 ctor ft reactiv w2 executed w3 where
      "EOPatch env = Some cls"
      "load cls path True w = Some (Inr loaded, w1)"
      "ReactivTask env = Some ctor"
      "FeatureType env = Some ft"
      "ctor [out ft] (named ft) w1 = Some (Inr reactiv, w2)"
      "execute reactiv loaded w2 = Some (Inr executed, w3)"
      "plot_results env = None"
      "script env w = (Raised (NameError ''plot_results''), \<lparr>world = w3, trace =
         [(Load path True, Returned ()), (Construct [out ft] (named ft), Returned ()),
          (Execute loaded, Returned ())]\<rparr>)"
  | (key_missing) cls loaded w1 ctor ft reactiv w2 executed w3 plot where
      "EOPatch env = Some cls"
      "load cls path True w = Some (Inr loaded, w1)"
      "ReactivTask env = Some ctor"
      "FeatureType env = Some ft"
      "ctor [out ft] (named ft) w1 = Some (Inr reactiv, w2)"
      "execute reactiv loaded w2 = Some (Inr executed, w3)"
      "plot_results env = Some plot"
      "executed (out ft) = None"
      "script env w = (Raised (KeyError (out ft)), \<lparr>world = w3, trace =
         [(Load path True, Returned ()), (Construct [out ft] (named ft), Returned ()),
          (Execute loaded, Returned ()), (GetItem executed (out ft), Raised (KeyError (out ft)))]\<rparr>)"
  | (plot_hangs) cls loaded w1 ctor ft reactiv w2 executed w3 plot layer where
      "EOPatch env = Some cls"
      "load cls path True w = Some (Inr loaded, w1)"
      "ReactivTask env = Some ctor"
      "FeatureType env = Some ft"
      "ctor [out ft] (named ft) w1 = Some (Inr reactiv, w2)"
      "execute reactiv loaded w2 = Some (Inr executed, w3)"
      "plot_results env = Some plot"
      "executed (out ft) = Some layer"
      "plot layer w3 = None"
      "script env w = (Diverged, \<lparr>world = w3, trace =
         [(Load path True, Returned ()), (Construct [out ft] (named ft), Returned ()),
          (Execute loaded, Returned ()), (GetItem executed (out ft), Returned ()),
          (Plot layer, Diverged)]\<rparr>)"
  | (plot_raises) cls loaded w1 ctor ft reactiv w2 executed w3 plot layer e w4 where
      "EOPatch env = Some cls"
      "load cls path True w = Some (Inr loaded, w1)"
      "ReactivTask env = Some ctor"
      "FeatureType env = Some ft"
      "ctor [out ft] (named ft) w1 = Some (Inr reactiv, w2)"
      "execute reactiv loaded w2 = Some (Inr executed, w3)"
      "plot_results env = Some plot"
      "executed (out ft) = Some layer"
      "plot layer w3 = Some (Inl e, w4)"
      "script env w = (Raised e, \<lparr>world = w4, trace =
         [(Load path True, Returned ()), (Construct [out ft] (named ft), Returned ()),
          (Execute loaded, Returned ()), (GetItem executed (out ft), Returned ()),
          (Plot layer, Raised e)]\<rparr>)"
  | (plot_returns) cls loaded w1 ctor ft reactiv w2 executed w3 plot layer w4 where
      "EOPatch env = Some cls"
      "load cls path True w = Some (Inr loaded, w1)"
      "ReactivTask env = Some ctor"
      "FeatureType env = Some ft"
      "ctor [out ft] (named ft) w1 = Some (Inr reactiv, w2)"
      "execute reactiv loaded w2 = Some (Inr executed, w3)"
      "plot_results env = Some plot"
      "executed (out ft) = Some layer"
      "plot layer w3 = Some (Inr (), w4)"
      "script env w = (Returned (), \<lparr>world = w4, trace =
         [(Load path True, Returned ()), (Construct [out ft] (named ft), Returned ()),
          (Execute loaded, Returned ()), (GetItem executed (out ft), Returned ()),
          (Plot layer, Returned ())]\<rparr>)"
proof (cases "EOPatch env")
  case None
  then show ?thesis
    by (intro EOPatch_unbound) (simp_all add: script_simps)
next
  case eo: (Some cls)
  show ?thesis
  proof (cases "load cls path True w")
    case None
    with eo show ?thesis
      by (intro load_hangs[of cls]) (simp_all add: script_simps path_def)
  next
    case (Some a)
    then obtain r1 w1 where ld: "load cls path True w = Some (r1, w1)"
      by (cases a) simp
    show ?thesis
    proof (cases r1)
      case (Inl e)
      with eo ld show ?thesis
        by (intro load_raises[of cls e w1]) (simp_all add: script_simps path_def)
    next
      case (Inr loaded)
      with ld have ld': "load cls path True w = Some (Inr loaded, w1)"
        by simp
      show ?thesis
      proof (cases "ReactivTask env")
        case None
        with eo ld' show ?thesis
          by (intro ReactivTask_unbound[of cls loaded w1]) (simp_all add: script_simps path_def)
      next
        case rt: (Some ctor)
        show ?thesis
        proof (cases "FeatureType env")
          case None
          with eo ld' rt show ?thesis
            by (intro FeatureType_unbound[of cls loaded w1 ctor]) (simp_all add: script_simps path_def)
        next
          case ft: (Some ft)
          show ?thesis
          proof (cases "ctor [out ft] (named ft) w1")
            case None
            with eo ld' rt ft show ?thesis
              by (intro constructor_hangs[of cls loaded w1 ctor ft])
                (simp_all add: script_simps path_def out_def named_def)
          next
            case (Some b)
            then obtain r2 w2 where ct: "ctor [out ft] (named ft) w1 = Some (r2, w2)"
              by (cases b) simp
            show ?thesis
            proof (cases r2)
              case (Inl e)
              with eo ld' rt ft ct show ?thesis
                by (intro constructor_raises[of cls loaded w1 ctor ft e w2])
                  (simp_all add: script_simps path_def out_def named_def)
            next
              case (Inr reactiv)
              with ct have ct': "ctor [out ft] (named ft) w1 = Some (Inr reactiv, w2)"
                by simp
              show ?thesis
              proof (cases "execute reactiv loaded w2")
                case None
                with eo ld' rt ft ct' show ?thesis
                  by (intro execute_hangs[of cls loaded w1 ctor ft reactiv w2])
                    (simp_all add: script_simps path_def out_def named_def)
              next
                case (Some c)
                then obtain r3 w3 where ex: "execute reactiv loaded w2 = Some (r3, w3)"
                  by (cases c) simp
                show ?thesis
                proof (cases r3)
                  case (Inl e)
                  with eo ld' rt ft ct' ex show ?thesis
                    by (intro execute_raises[of cls loaded w1 ctor ft reactiv w2 e w3])
                      (simp_all add: script_simps path_def out_def named_def)
                next
                  case (Inr executed)
                  with ex have ex': "execute reactiv loaded w2 = Some (Inr executed, w3)"
                    by simp
                  show ?thesis
                  proof (cases "plot_results env")
                    case None
                    with eo ld' rt ft ct' ex' show ?thesis
                      by (intro plot_results_unbound[of cls loaded w1 ctor ft reactiv w2 executed w3])
                        (simp_all add: script_simps path_def out_def named_def)
                  next
                    case pr: (Some plot)
                    show ?thesis
                    proof (cases "executed (out ft)")
                      case None
                      with eo ld' rt ft ct' ex' pr show ?thesis
                        by (intro key_missing[of cls loaded w1 ctor ft reactiv w2 executed w3 plot])
                          (simp_all add: script_simps path_def out_def named_def)
                    next
                      case ly: (Some layer)
                      show ?thesis
                      proof (cases "plot layer w3")
                        case None
                        with eo ld' rt ft ct' ex' pr ly show ?thesis
                          by (intro plot_hangs[of cls loaded w1 ctor ft reactiv w2 executed w3 plot layer])
                            (simp_all add: script_simps path_def out_def named_def)
                      next
                        case (Some d)
                        then obtain r4 w4 where pl: "plot layer w3 = Some (r4, w4)"
                          by (cases d) simp
                        show ?thesis
                        proof (cases r4)
                          case (Inl e)
                          with eo ld' rt ft ct' ex' pr ly pl show ?thesis
                            by (intro plot_raises[of cls loaded w1 ctor ft reactiv w2 executed w3 plot layer e w4])
                              (simp_all add: script_simps path_def out_def named_def)
                        next
                          case (Inr u)
                          with eo ld' rt ft ct' ex' pr ly pl show ?thesis
                            by (intro plot_returns[of cls loaded w1 ctor ft reactiv w2 executed w3 plot layer w4])
                              (simp_all add: script_simps path_def out_def named_def)
                        qed
                      qed
                    qed
                  qed
                qed
              qed
            qed
          qed
        qed
      qed
    qed
  qed
qed

subsection \<open>Runs against the sample environment\<close>

lemmas sample_simps =
  sample_env_def sample_cls_def sample_ctor_def sample_task_def sample_plot_def
  sample_features_def sample_disk_def sample_patch_def plotted_patch_def sample_trace_def

lemma run_sample:
  "script sample_env sample_disk = (Returned (), \<lparr>world = sample_disk, trace = sample_trace\<rparr>)"
  by (simp add: script_simps sample_simps)

lemma run_empty_disk:
  "script sample_env [] =
     (Raised (LibraryError ''no such directory''),
      \<lparr>world = [],
       trace = [(Load ''../data/sentinel1_sample'' True,
                 Raised (LibraryError ''no such directory''))]\<rparr>)"
  by (simp add: script_simps sample_simps)

lemma run_unmasked:
  "script sample_env unmasked_disk =
     (Raised (KeyError (''mask'', ''IS_DATA'')),
      \<lparr>world = unmasked_disk,
       trace = take 2 sample_trace @
         [(Execute unmasked_patch, Raised (KeyError (''mask'', ''IS_DATA'')))]\<rparr>)"
  by (simp add: script_simps sample_simps unmasked_disk_def unmasked_patch_def)

lemma run_no_EOPatch:
  "script (sample_env\<lparr>EOPatch := None\<rparr>) sample_disk =
     (Raised (NameError ''EOPatch''), \<lparr>world = sample_disk, trace = []\<rparr>)"
  by (simp add: script_simps sample_simps)

lemma run_no_ReactivTask:
  "script (sample_env\<lparr>ReactivTask := None\<rparr>) sample_disk =
     (Raised (NameError ''ReactivTask''), \<lparr>world = sample_disk, trace = take 1 sample_trace\<rparr>)"
  by (simp add: script_simps sample_simps)

lemma run_no_FeatureType:
  "script (sample_env\<lparr>FeatureType := None\<rparr>) sample_disk =
     (Raised (NameError ''FeatureType''), \<lparr>world = sample_disk, trace = take 1 sample_trace\<rparr>)"
  by (simp add: script_simps sample_simps)

lemma run_no_plot_results:
  "script (sample_env\<lparr>plot_results := None\<rparr>) sample_disk =
     (Raised (NameError ''plot_results''), \<lparr>world = sample_disk, trace = take 3 sample_trace\<rparr>)"
  by (simp add: script_simps sample_simps)

lemma run_hanging_plot:
  "script (sample_env\<lparr>plot_results := Some hanging_plot\<rparr>) sample_disk =
     (Diverged, \<lparr>world = sample_disk, trace = take 4 sample_trace @ [(Plot 6, Diverged)]\<rparr>)"
  by (simp add: script_simps sample_simps hanging_plot_def)

lemma plotted_patch_differs: "plotted_patch \<noteq> sample_patch"
  by (simp add: plotted_patch_def sample_patch_def fun_upd_idem_iff)

lemma sample_adds_output: "execute_adds_output sample_env"
  by (auto simp: execute_adds_output_def sample_env_def sample_ctor_def sample_task_def
      split: list.splits option.splits)

section \<open>The claims\<close>

subsection \<open>What is plotted\<close>

text \<open>
  Claim C1. Whenever a run reaches the call of \<^verbatim>\<open>plot_results\<close>, the container that
  the plotting statement subscripts is exactly the one the task's \<open>execute\<close> returned
  for the loaded container (\<open>executed\<close>, not \<open>loaded\<close>), the layer plotted is the one
  that container holds under \<^verbatim>\<open>(FeatureType.DATA_TIMELESS, 'speckle_variability')\<close>, and
  that key is the very key passed to the task constructor as its output.
\<close>

theorem plot_receives_output_layer_of_executed:
  assumes "(Plot layer, st) \<in> set (trace (snd (script env w)))"
  shows "\<exists>cls ft ctor reactiv loaded w1 w2 executed w3 key.
     EOPatch env = Some cls \<and> FeatureType env = Some ft \<and> ReactivTask env = Some ctor \<and>
     load cls ''../data/sentinel1_sample'' True w = Some (Inr loaded, w1) \<and>
     key = (DATA_TIMELESS ft, ''speckle_variability'') \<and>
     ctor [key] [(''data_feature'', (DATA ft, ''IW_VV'')), (''mask_feature'', (MASK ft, ''IS_DATA''))] w1
       = Some (Inr reactiv, w2) \<and>
     execute reactiv loaded w2 = Some (Inr executed, w3) \<and>
     executed key = Some layer \<and>
     map fst (trace (snd (script env w))) =
       [Load ''../data/sentinel1_sample'' True,
        Construct [key] [(''data_feature'', (DATA ft, ''IW_VV'')), (''mask_feature'', (MASK ft, ''IS_DATA''))],
        Execute loaded, GetItem executed key, Plot layer]"
  using assms by (cases rule: script_cases[of env w]) auto

theorem plot_receives_output_layer_of_executed_witness:
  "(Plot 6, Returned ()) \<in> set (trace (snd (script sample_env sample_disk))) \<and>
   (\<exists>cls ft ctor reactiv loaded w1 w2 executed w3 key.
     EOPatch sample_env = Some cls \<and> FeatureType sample_env = Some ft \<and>
     ReactivTask sample_env = Some ctor \<and>
     load cls ''../data/sentinel1_sample'' True sample_disk = Some (Inr loaded, w1) \<and>
     key = (DATA_TIMELESS ft, ''speckle_variability'') \<and>
     ctor [key] [(''data_feature'', (DATA ft, ''IW_VV'')), (''mask_feature'', (MASK ft, ''IS_DATA''))] w1
       = Some (Inr reactiv, w2) \<and>
     execute reactiv loaded w2 = Some (Inr executed, w3) \<and>
     executed key = Some 6 \<and>
     map fst (trace (snd (script sample_env sample_disk))) =
       [Load ''../data/sentinel1_sample'' True,
        Construct [key] [(''data_feature'', (DATA ft, ''IW_VV'')), (''mask_feature'', (MASK ft, ''IS_DATA''))],
        Execute loaded, GetItem executed key, Plot 6])"
proof -
  have reached: "(Plot 6, Returned ()) \<in> set (trace (snd (script sample_env sample_disk)))"
    by (simp add: run_sample sample_trace_def)
  show ?thesis
    by (rule conjI [OF reached plot_receives_output_layer_of_executed [OF reached]])
qed

subsection \<open>What the script itself does with the container\<close>

text \<open>
  The sample run subscripts the container with the key
  \<^verbatim>\<open>(FeatureType.DATA_TIMELESS, 'speckle_variability')\<close>, which is neither
  \<^verbatim>\<open>(FeatureType.DATA, 'IW_VV')\<close> nor \<^verbatim>\<open>(FeatureType.MASK, 'IS_DATA')\<close>: the one
  key the script's own code reads is the output key, not one of the two input keys.
\<close>

theorem script_subscripts_output_key:
  "(GetItem plotted_patch (DATA_TIMELESS sample_features, ''speckle_variability''), Returned ())
     \<in> set (trace (snd (script sample_env sample_disk))) \<and>
   (DATA_TIMELESS sample_features, ''speckle_variability'') \<noteq> (DATA sample_features, ''IW_VV'') \<and>
   (DATA_TIMELESS sample_features, ''speckle_variability'') \<noteq> (MASK sample_features, ''IS_DATA'')"
  by (simp add: run_sample sample_trace_def sample_features_def)

text \<open>
  Claim C2, as amended. The script's own code hands \<^verbatim>\<open>(FeatureType.DATA, 'IW_VV')\<close>
  and \<^verbatim>\<open>(FeatureType.MASK, 'IS_DATA')\<close> to the task constructor as the named inputs
  and \<^verbatim>\<open>(FeatureType.DATA_TIMELESS, 'speckle_variability')\<close> as the output; reading and
  writing those layers is the task's work. The only access to a container that the script
  performs itself is one subscript, of the output key, on the container \<open>execute\<close>
  returned. It changes no layer and saves nothing: the container passed to \<open>execute\<close> is
  the one \<open>load\<close> returned, the container subscripted is the one \<open>execute\<close> returned,
  each library call starts in the world the previous one left, and the calls made are
  load, construction, execute and the subscript, followed at most by the plot.
\<close>

theorem script_container_access:
  assumes "(GetItem p k, st) \<in> set (trace (snd (script env w)))"
  shows "\<exists>cls ft ctor reactiv loaded w1 w2 w3.
     EOPatch env = Some cls \<and> FeatureType env = Some ft \<and> ReactivTask env = Some ctor \<and>
     load cls ''../data/sentinel1_sample'' True w = Some (Inr loaded, w1) \<and>
     ctor [(DATA_TIMELESS ft, ''speckle_variability'')]
          [(''data_feature'', (DATA ft, ''IW_VV'')), (''mask_feature'', (MASK ft, ''IS_DATA''))] w1
       = Some (Inr reactiv, w2) \<and>
     execute reactiv loaded w2 = Some (Inr p, w3) \<and>
     k = (DATA_TIMELESS ft, ''speckle_variability'') \<and>
     (\<exists>rest. trace (snd (script env w)) =
        [(Load ''../data/sentinel1_sample'' True, Returned ()),
         (Construct [(DATA_TIMELESS ft, ''speckle_variability'')]
            [(''data_feature'', (DATA ft, ''IW_VV'')), (''mask_feature'', (MASK ft, ''IS_DATA''))],
          Returned ()),
         (Execute loaded, Returned ()),
         (GetItem p k, st)] @ rest \<and>
        (rest = [] \<or> (\<exists>layer st'. rest = [(Plot layer, st')] \<and> p k = Some layer)))"
  using assms by (cases rule: script_cases[of env w]) auto

theorem script_container_access_witness:
  "(GetItem plotted_patch (''data_timeless'', ''speckle_variability''), Returned ())
     \<in> set (trace (snd (script sample_env sample_disk))) \<and>
   (\<exists>cls ft ctor reactiv loaded w1 w2 w3.
     EOPatch sample_env = Some cls \<and> FeatureType sample_env = Some ft \<and>
     ReactivTask sample_env = Some ctor \<and>
     load cls ''../data/sentinel1_sample'' True sample_disk = Some (Inr loaded, w1) \<and>
     ctor [(DATA_TIMELESS ft, ''speckle_variability'')]
          [(''data_feature'', (DATA ft, ''IW_VV'')), (''mask_feature'', (MASK ft, ''IS_DATA''))] w1
       = Some (Inr reactiv, w2) \<and>
     execute reactiv loaded w2 = Some (Inr plotted_patch, w3) \<and>
     (''data_timeless'', ''speckle_variability'') = (DATA_TIMELESS ft, ''speckle_variability'') \<and>
     (\<exists>rest. trace (snd (script sample_env sample_disk)) =
        [(Load ''../data/sentinel1_sample'' True, Returned ()),
         (Construct [(DATA_TIMELESS ft, ''speckle_variability'')]
            [(''data_feature'', (DATA ft, ''IW_VV'')), (''mask_feature'', (MASK ft, ''IS_DATA''))],
          Returned ()),
         (Execute loaded, Returned ()),
         (GetItem plotted_patch (''data_timeless'', ''speckle_variability''), Returned ())] @ rest \<and>
        (rest = [] \<or>
         (\<exists>layer st'. rest = [(Plot layer, st')] \<and>
            plotted_patch (''data_timeless'', ''speckle_variability'') = Some layer))))"
proof -
  have subscripted:
    "(GetItem plotted_patch (''data_timeless'', ''speckle_variability''), Returned ())
       \<in> set (trace (snd (script sample_env sample_disk)))"
    by (simp add: run_sample sample_trace_def)
  show ?thesis
    by (rule conjI [OF subscripted script_container_access [OF subscripted]])
qed

subsection \<open>How the task is configured\<close>

text \<open>
  Claim C3. Whenever the task constructor is called, it receives exactly one positional
  argument, the output key \<^verbatim>\<open>(FeatureType.DATA_TIMELESS, 'speckle_variability')\<close>, and
  exactly two keyword arguments, \<^verbatim>\<open>data_feature = (FeatureType.DATA, 'IW_VV')\<close> and
  \<^verbatim>\<open>mask_feature = (FeatureType.MASK, 'IS_DATA')\<close>, and nothing else.
\<close>

theorem task_constructor_arguments:
  "(Construct args kwargs, st) \<in> set (trace (snd (script env w))) \<Longrightarrow>
   \<exists>ft. FeatureType env = Some ft \<and>
     args = [(DATA_TIMELESS ft, ''speckle_variability'')] \<and>
     kwargs = [(''data_feature'', (DATA ft, ''IW_VV'')), (''mask_feature'', (MASK ft, ''IS_DATA''))]"
  by (cases rule: script_cases[of env w]) auto

theorem task_constructor_arguments_witness:
  "(Construct [(''data_timeless'', ''speckle_variability'')]
      [(''data_feature'', (''data'', ''IW_VV'')), (''mask_feature'', (''mask'', ''IS_DATA''))],
    Returned ()) \<in> set (trace (snd (script sample_env sample_disk))) \<and>
   (\<exists>ft. FeatureType sample_env = Some ft \<and>
     [(''data_timeless'', ''speckle_variability'')] = [(DATA_TIMELESS ft, ''speckle_variability'')] \<and>
     [(''data_feature'', (''data'', ''IW_VV'')), (''mask_feature'', (''mask'', ''IS_DATA''))] =
     [(''data_feature'', (DATA ft, ''IW_VV'')), (''mask_feature'', (MASK ft, ''IS_DATA''))])"
proof -
  have constructed:
    "(Construct [(''data_timeless'', ''speckle_variability'')]
        [(''data_feature'', (''data'', ''IW_VV'')), (''mask_feature'', (''mask'', ''IS_DATA''))],
      Returned ()) \<in> set (trace (snd (script sample_env sample_disk)))"
    by (simp add: run_sample sample_trace_def)
  show ?thesis
    by (rule conjI [OF constructed task_constructor_arguments [OF constructed]])
qed

subsection \<open>The order of the operations\<close>

text \<open>
  On an empty disk the load call raises, and the run ends after that one call: a run does
  not always perform all four operations.
\<close>

theorem failed_load_ends_run_after_one_call:
  "fst (script sample_env []) = Raised (LibraryError ''no such directory'') \<and>
   map (kind_of \<circ> fst) (trace (snd (script sample_env []))) = [KLoad]"
  by (simp add: run_empty_disk)

text \<open>
  Claim C4, as amended. Every run performs an initial segment of one fixed sequence: load
  the container, construct the task, execute it, then plot one named layer (the subscript
  followed by the call of \<^verbatim>\<open>plot_results\<close>). A run that ends without an exception
  performs the whole sequence, each operation exactly once. Which operation comes next
  never depends on the data, only on whether the run has stopped.
\<close>

theorem calls_in_fixed_order:
  "prefix (map (kind_of \<circ> fst) (trace (snd (script env w))))
     [KLoad, KConstruct, KExecute, KGetItem, KPlot] \<and>
   (fst (script env w) = Returned () \<longrightarrow>
      map (kind_of \<circ> fst) (trace (snd (script env w))) =
        [KLoad, KConstruct, KExecute, KGetItem, KPlot])"
  by (cases rule: script_cases[of env w]) auto

theorem calls_in_fixed_order_witness:
  "fst (script sample_env sample_disk) = Returned () \<and>
   prefix (map (kind_of \<circ> fst) (trace (snd (script sample_env sample_disk))))
     [KLoad, KConstruct, KExecute, KGetItem, KPlot] \<and>
   map (kind_of \<circ> fst) (trace (snd (script sample_env sample_disk))) =
     [KLoad, KConstruct, KExecute, KGetItem, KPlot]"
proof -
  have completed: "fst (script sample_env sample_disk) = Returned ()"
    by (simp add: run_sample)
  with calls_in_fixed_order [of sample_env sample_disk] show ?thesis
    by blast
qed

subsection \<open>Exceptions\<close>

text \<open>
  Claim C5. If a call the script makes (load, task construction, execute, the subscript,
  plot) raises an exception, the script ends with that same exception value, and the
  failing call is the last one made: every call before it returned normally and none
  follows it.
\<close>

theorem exception_propagates_unmodified:
  "(c, Raised e) \<in> set (trace (snd (script env w))) \<Longrightarrow>
   fst (script env w) = Raised e \<and>
   last (trace (snd (script env w))) = (c, Raised e) \<and>
   (\<forall>x \<in> set (butlast (trace (snd (script env w)))). snd x = Returned ())"
  by (cases rule: script_cases[of env w]) auto

theorem exception_propagates_unmodified_witness:
  "(Execute unmasked_patch, Raised (KeyError (''mask'', ''IS_DATA'')))
     \<in> set (trace (snd (script sample_env unmasked_disk))) \<and>
   fst (script sample_env unmasked_disk) = Raised (KeyError (''mask'', ''IS_DATA'')) \<and>
   last (trace (snd (script sample_env unmasked_disk))) =
     (Execute unmasked_patch, Raised (KeyError (''mask'', ''IS_DATA''))) \<and>
   map snd (butlast (trace (snd (script sample_env unmasked_disk)))) = [Returned (), Returned ()]"
proof -
  have raised:
    "(Execute unmasked_patch, Raised (KeyError (''mask'', ''IS_DATA'')))
       \<in> set (trace (snd (script sample_env unmasked_disk)))"
    by (simp add: run_unmasked)
  have earlier:
    "map snd (butlast (trace (snd (script sample_env unmasked_disk)))) = [Returned (), Returned ()]"
    by (simp add: run_unmasked sample_trace_def)
  from exception_propagates_unmodified [OF raised] raised earlier show ?thesis
    by blast
qed

subsection \<open>The load call\<close>

text \<open>
  In the sample run \<open>load\<close> returns \<open>sample_patch\<close>, but the container the plotting
  statement subscripts is \<open>plotted_patch\<close>, the one \<open>execute\<close> returned, and the two
  differ: the value \<open>load\<close> returned is not the container every later operation uses.
\<close>

theorem subscripted_container_not_loaded_one:
  "load sample_cls ''../data/sentinel1_sample'' True sample_disk = Some (Inr sample_patch, sample_disk) \<and>
   map fst (trace (snd (script sample_env sample_disk))) =
     [Load ''../data/sentinel1_sample'' True,
      Construct [(''data_timeless'', ''speckle_variability'')]
        [(''data_feature'', (''data'', ''IW_VV'')), (''mask_feature'', (''mask'', ''IS_DATA''))],
      Execute sample_patch,
      GetItem plotted_patch (''data_timeless'', ''speckle_variability''),
      Plot 6] \<and>
   plotted_patch \<noteq> sample_patch"
proof -
  have "load sample_cls ''../data/sentinel1_sample'' True sample_disk =
          Some (Inr sample_patch, sample_disk)"
    by (simp add: sample_cls_def sample_disk_def)
  then show ?thesis
    by (simp add: run_sample sample_trace_def plotted_patch_differs)
qed

text \<open>
  Claim C6, as amended. The first operation of every run that performs any is the load
  call, with the path \<^verbatim>\<open>'../data/sentinel1_sample'\<close> and the lazy-loading flag
  \<open>True\<close>; the value it returns is the container passed to the task's \<open>execute\<close>; and
  the container subscripted for plotting is the one that \<open>execute\<close> returns.
\<close>

theorem load_first_and_feeds_execute:
  "(trace (snd (script env w)) \<noteq> [] \<longrightarrow>
      (\<exists>st. hd (trace (snd (script env w))) = (Load ''../data/sentinel1_sample'' True, st))) \<and>
   ((Execute p, st_execute) \<in> set (trace (snd (script env w))) \<longrightarrow>
      (\<exists>cls w1. EOPatch env = Some cls \<and>
         load cls ''../data/sentinel1_sample'' True w = Some (Inr p, w1))) \<and>
   ((GetItem q k, st_getitem) \<in> set (trace (snd (script env w))) \<longrightarrow>
      (\<exists>cls ft ctor reactiv loaded w1 w2 w3.
         EOPatch env = Some cls \<and> FeatureType env = Some ft \<and> ReactivTask env = Some ctor \<and>
         load cls ''../data/sentinel1_sample'' True w = Some (Inr loaded, w1) \<and>
         ctor [(DATA_TIMELESS ft, ''speckle_variability'')]
           [(''data_feature'', (DATA ft, ''IW_VV'')), (''mask_feature'', (MASK ft, ''IS_DATA''))] w1
           = Some (Inr reactiv, w2) \<and>
         execute reactiv loaded w2 = Some (Inr q, w3)))"
  by (cases rule: script_cases[of env w]) auto

theorem load_first_and_feeds_execute_witness:
  "trace (snd (script sample_env sample_disk)) \<noteq> [] \<and>
   (\<exists>st. hd (trace (snd (script sample_env sample_disk))) =
      (Load ''../data/sentinel1_sample'' True, st)) \<and>
   (Execute sample_patch, Returned ()) \<in> set (trace (snd (script sample_env sample_disk))) \<and>
   (\<exists>cls w1. EOPatch sample_env = Some cls \<and>
      load cls ''../data/sentinel1_sample'' True sample_disk = Some (Inr sample_patch, w1)) \<and>
   (GetItem plotted_patch (''data_timeless'', ''speckle_variability''), Returned ())
      \<in> set (trace (snd (script sample_env sample_disk))) \<and>
   (\<exists>cls ft ctor reactiv loaded w1 w2 w3.
      EOPatch sample_env = Some cls \<and> FeatureType sample_env = Some ft \<and>
      ReactivTask sample_env = Some ctor \<and>
      load cls ''../data/sentinel1_sample'' True sample_disk = Some (Inr loaded, w1) \<and>
      ctor [(DATA_TIMELESS ft, ''speckle_variability'')]
        [(''data_feature'', (DATA ft, ''IW_VV'')), (''mask_feature'', (MASK ft, ''IS_DATA''))] w1
        = Some (Inr reactiv, w2) \<and>
      execute reactiv loaded w2 = Some (Inr plotted_patch, w3))"
proof -
  have started: "trace (snd (script sample_env sample_disk)) \<noteq> []"
    by (simp add: run_sample sample_trace_def)
  have executed:
    "(Execute sample_patch, Returned ()) \<in> set (trace (snd (script sample_env sample_disk)))"
    by (simp add: run_sample sample_trace_def)
  have subscripted:
    "(GetItem plotted_patch (''data_timeless'', ''speckle_variability''), Returned ())
       \<in> set (trace (snd (script sample_env sample_disk)))"
    by (simp add: run_sample sample_trace_def)
  from started executed subscripted
    load_first_and_feeds_execute
      [of sample_env sample_disk sample_patch "Returned ()"
          plotted_patch "(''data_timeless'', ''speckle_variability'')" "Returned ()"]
  show ?thesis
    by blast
qed

subsection \<open>Determinism\<close>

lemma functional_interpreter_step: "functional (interpreter_step m s)"
  by (simp add: functional_def interpreter_step_def)

lemma functional_extern_call_rel:
  "functional (f (world s)) \<Longrightarrow> functional (extern_call_rel c f s)"
  by (auto simp: functional_def extern_call_rel_def)

lemma functional_and_then_rel:
  assumes "functional (m s)"
    and "\<And>a s'. (Returned a, s') \<in> m s \<Longrightarrow> functional (f a s')"
  shows "functional (and_then_rel m f s)"
  unfolding functional_def
proof (intro ballI)
  fix x y
  assume "x \<in> and_then_rel m f s" and "y \<in> and_then_rel m f s"
  then obtain o1 o2 where o1: "o1 \<in> m s" and o2: "o2 \<in> m s"
    and x: "x \<in> (case o1 of (Returned a, s') \<Rightarrow> f a s' | (Raised e, s') \<Rightarrow> {(Raised e, s')}
                   | (Diverged, s') \<Rightarrow> {(Diverged, s')})"
    and y: "y \<in> (case o2 of (Returned a, s') \<Rightarrow> f a s' | (Raised e, s') \<Rightarrow> {(Raised e, s')}
                   | (Diverged, s') \<Rightarrow> {(Diverged, s')})"
    by (auto simp: and_then_rel_def)
  from assms(1) o1 o2 have same: "o2 = o1"
    by (simp add: functional_def)
  obtain r s' where o1_eq: "o1 = (r, s')"
    by (cases o1)
  show "x = y"
  proof (cases r)
    case (Returned a)
    with o1 o1_eq have "functional (f a s')"
      by (simp add: assms(2))
    with x y same o1_eq Returned show ?thesis
      by (simp add: functional_def)
  next
    case (Raised e)
    with x y same o1_eq show ?thesis
      by simp
  next
    case Diverged
    with x y same o1_eq show ?thesis
      by simp
  qed
qed

lemma interpreter_step_Returned:
  "(Returned a, s') \<in> interpreter_step (lookup_name n binding) s \<Longrightarrow> binding = Some a"
  by (auto simp: interpreter_step_def lookup_name_def split: option.splits)

lemma extern_call_rel_Returned:
  "(Returned a, s') \<in> extern_call_rel c f s \<Longrightarrow> \<exists>w'. Some (Inr a, w') \<in> f (world s)"
  by (auto simp: extern_call_rel_def extern_call_def split: option.splits sum.splits prod.splits)

lemma functional_feature_rel: "functional (feature_rel env member nm s)"
  by (simp add: feature_rel_def functional_interpreter_step)

lemma fixed_load:
  "fixed_behaviour env \<Longrightarrow> EOPatch_rel env = Some cls \<Longrightarrow>
   functional (load_rel cls path lazy_loading w)"
  by (simp add: fixed_behaviour_def)

lemma fixed_constructor:
  "fixed_behaviour env \<Longrightarrow> ReactivTask_rel env = Some ctor \<Longrightarrow> functional (ctor args kwargs w)"
  by (simp add: fixed_behaviour_def)

lemma fixed_execute:
  "fixed_behaviour env \<Longrightarrow> ReactivTask_rel env = Some ctor \<Longrightarrow>
   Some (Inr reactiv, w') \<in> ctor args kwargs w \<Longrightarrow>
   functional (execute_rel reactiv eopatch w1)"
  unfolding fixed_behaviour_def by blast

lemma fixed_plot:
  "fixed_behaviour env \<Longrightarrow> plot_results_rel env = Some plot \<Longrightarrow> functional (plot layer w)"
  by (simp add: fixed_behaviour_def)

lemma functional_script_rel:
  assumes "fixed_behaviour env"
  shows "functional (script_rel env w)"
  unfolding script_rel_def call_load_rel_def call_constructor_rel_def call_execute_rel_def
    call_plot_rel_def
  by (intro functional_and_then_rel functional_interpreter_step functional_feature_rel
        functional_extern_call_rel)
     (blast intro: fixed_load [OF assms] fixed_constructor [OF assms] fixed_execute [OF assms]
        fixed_plot [OF assms]
        dest: interpreter_step_Returned extern_call_rel_Returned)+

text \<open>
  A library read off an environment of \<open>env\<close> has a fixed behaviour, and over it the
  script has the one run that \<open>script\<close> computes. Over the flaky library the same
  script, from the same world, has two different runs.
\<close>

lemma fixed_behaviour_as_library: "fixed_behaviour (as_library env)"
  by (auto simp: fixed_behaviour_def as_library_def as_task_rel_def functional_def
      split: option.splits sum.splits prod.splits)

lemmas script_rel_simps =
  script_rel_def and_then_rel_def interpreter_step_def extern_call_rel_def feature_rel_def
  call_load_rel_def call_constructor_rel_def call_execute_rel_def call_plot_rel_def
  as_library_def as_task_rel_def lookup_name_def and_then_def extern_call_def getitem_def

lemma script_rel_as_library: "script_rel (as_library env) w = {script env w}"
  by (cases rule: script_cases [of env w]) (simp_all add: script_rel_simps)

lemma flaky_library_runs:
  "(Returned (), \<lparr>world = sample_disk, trace = sample_trace\<rparr>) \<in> script_rel flaky_library sample_disk"
  "(Raised (LibraryError ''read error''),
    \<lparr>world = sample_disk,
     trace = [(Load ''../data/sentinel1_sample'' True, Raised (LibraryError ''read error''))]\<rparr>)
     \<in> script_rel flaky_library sample_disk"
  by (simp_all add: flaky_library_def script_rel_simps sample_simps)

lemma flaky_library_not_functional: "\<not> functional (script_rel flaky_library sample_disk)"
proof
  assume "functional (script_rel flaky_library sample_disk)"
  with flaky_library_runs
  have "(Returned (), \<lparr>world = sample_disk, trace = sample_trace\<rparr>) =
        (Raised (LibraryError ''read error''),
         \<lparr>world = sample_disk,
          trace = [(Load ''../data/sentinel1_sample'' True, Raised (LibraryError ''read error''))]\<rparr>)"
    unfolding functional_def by blast
  then show False
    by simp
qed

text \<open>
  Claim C7. The script is deterministic: whatever the library is, as long as each of its
  functions has a fixed behaviour, two runs of the script from the same environment and
  the same world are the same run. Any run is the only one, so a second run makes the
  same sequence of calls with the same arguments and ends with the same result in the
  same world.
\<close>

theorem script_runs_agree_under_fixed_behaviour:
  assumes "fixed_behaviour env"
    and "run \<in> script_rel env w"
  shows "script_rel env w = {run}"
proof -
  from assms(1) have "functional (script_rel env w)"
    by (rule functional_script_rel)
  with assms(2) show ?thesis
    by (auto simp: functional_def)
qed

theorem script_runs_agree_under_fixed_behaviour_witness:
  "fixed_behaviour (as_library sample_env) \<and>
   (Returned (), \<lparr>world = sample_disk, trace = sample_trace\<rparr>)
     \<in> script_rel (as_library sample_env) sample_disk \<and>
   script_rel (as_library sample_env) sample_disk =
     {(Returned (), \<lparr>world = sample_disk, trace = sample_trace\<rparr>)}"
proof -
  have fixed: "fixed_behaviour (as_library sample_env)"
    by (rule fixed_behaviour_as_library)
  have run:
    "(Returned (), \<lparr>world = sample_disk, trace = sample_trace\<rparr>)
       \<in> script_rel (as_library sample_env) sample_disk"
    by (simp add: script_rel_as_library run_sample)
  from fixed run script_runs_agree_under_fixed_behaviour [OF fixed run] show ?thesis
    by blast
qed

subsection \<open>The names the environment has to bind\<close>

text \<open>
  With \<^verbatim>\<open>plot_results\<close> unbound and the other three names bound, the sample run fails
  on line 13 only: the load, the construction and the execute call have all been made,
  and have returned, before the \<^verbatim>\<open>NameError\<close> is raised.
\<close>

theorem missing_plot_results_fails_after_execute:
  "plot_results (sample_env\<lparr>plot_results := None\<rparr>) = None \<and>
   fst (script (sample_env\<lparr>plot_results := None\<rparr>) sample_disk) =
     Raised (NameError ''plot_results'') \<and>
   map (kind_of \<circ> fst) (trace (snd (script (sample_env\<lparr>plot_results := None\<rparr>) sample_disk))) =
     [KLoad, KConstruct, KExecute] \<and>
   map snd (trace (snd (script (sample_env\<lparr>plot_results := None\<rparr>) sample_disk))) =
     [Returned (), Returned (), Returned ()]"
  by (simp add: run_no_plot_results sample_trace_def)

text \<open>
  Claim C8, as amended. The script uses four names it never imports or defines, and a run
  ends normally only if the environment binds all four. A name that is missing makes the
  run fail with \<^verbatim>\<open>NameError\<close> at the first reference to it that the run reaches:
  for \<^verbatim>\<open>EOPatch\<close> on line 2, before any call; for \<^verbatim>\<open>ReactivTask\<close> and for
  \<^verbatim>\<open>FeatureType\<close> on line 5, once the load call has returned (\<^verbatim>\<open>ReactivTask\<close>
  being read first); for \<^verbatim>\<open>plot_results\<close> on line 13, once the load, the
  construction and the execute call have returned.
\<close>

theorem unbound_name_fails_at_first_reference:
  "(fst (script env w) = Returned () \<longrightarrow>
      EOPatch env \<noteq> None \<and> FeatureType env \<noteq> None \<and>
      ReactivTask env \<noteq> None \<and> plot_results env \<noteq> None) \<and>
   (EOPatch env = None \<longrightarrow>
      fst (script env w) = Raised (NameError ''EOPatch'') \<and> trace (snd (script env w)) = []) \<and>
   (ReactivTask env = None \<and>
    (Load ''../data/sentinel1_sample'' True, Returned ()) \<in> set (trace (snd (script env w))) \<longrightarrow>
      fst (script env w) = Raised (NameError ''ReactivTask'') \<and>
      trace (snd (script env w)) = [(Load ''../data/sentinel1_sample'' True, Returned ())]) \<and>
   (FeatureType env = None \<and> ReactivTask env \<noteq> None \<and>
    (Load ''../data/sentinel1_sample'' True, Returned ()) \<in> set (trace (snd (script env w))) \<longrightarrow>
      fst (script env w) = Raised (NameError ''FeatureType'') \<and>
      trace (snd (script env w)) = [(Load ''../data/sentinel1_sample'' True, Returned ())]) \<and>
   (plot_results env = None \<and>
    (Execute p, Returned ()) \<in> set (trace (snd (script env w))) \<longrightarrow>
      fst (script env w) = Raised (NameError ''plot_results'') \<and>
      map (kind_of \<circ> fst) (trace (snd (script env w))) = [KLoad, KConstruct, KExecute] \<and>
      last (trace (snd (script env w))) = (Execute p, Returned ()))"
  by (cases rule: script_cases[of env w]) auto

theorem unbound_name_fails_at_first_reference_witness:
  "(fst (script sample_env sample_disk) = Returned () \<and>
    EOPatch sample_env \<noteq> None \<and> FeatureType sample_env \<noteq> None \<and>
    ReactivTask sample_env \<noteq> None \<and> plot_results sample_env \<noteq> None) \<and>
   (EOPatch (sample_env\<lparr>EOPatch := None\<rparr>) = None \<and>
    fst (script (sample_env\<lparr>EOPatch := None\<rparr>) sample_disk) = Raised (NameError ''EOPatch'') \<and>
    trace (snd (script (sample_env\<lparr>EOPatch := None\<rparr>) sample_disk)) = []) \<and>
   (ReactivTask (sample_env\<lparr>ReactivTask := None\<rparr>) = None \<and>
    (Load ''../data/sentinel1_sample'' True, Returned ())
      \<in> set (trace (snd (script (sample_env\<lparr>ReactivTask := None\<rparr>) sample_disk))) \<and>
    fst (script (sample_env\<lparr>ReactivTask := None\<rparr>) sample_disk) =
      Raised (NameError ''ReactivTask'') \<and>
    trace (snd (script (sample_env\<lparr>ReactivTask := None\<rparr>) sample_disk)) =
      [(Load ''../data/sentinel1_sample'' True, Returned ())]) \<and>
   (FeatureType (sample_env\<lparr>FeatureType := None\<rparr>) = None \<and>
    ReactivTask (sample_env\<lparr>FeatureType := None\<rparr>) \<noteq> None \<and>
    (Load ''../data/sentinel1_sample'' True, Returned ())
      \<in> set (trace (snd (script (sample_env\<lparr>FeatureType := None\<rparr>) sample_disk))) \<and>
    fst (script (sample_env\<lparr>FeatureType := None\<rparr>) sample_disk) =
      Raised (NameError ''FeatureType'') \<and>
    trace (snd (script (sample_env\<lparr>FeatureType := None\<rparr>) sample_disk)) =
      [(Load ''../data/sentinel1_sample'' True, Returned ())]) \<and>
   (plot_results (sample_env\<lparr>plot_results := None\<rparr>) = None \<and>
    (Execute sample_patch, Returned ())
      \<in> set (trace (snd (script (sample_env\<lparr>plot_results := None\<rparr>) sample_disk))) \<and>
    fst (script (sample_env\<lparr>plot_results := None\<rparr>) sample_disk) =
      Raised (NameError ''plot_results'') \<and>
    map (kind_of \<circ> fst) (trace (snd (script (sample_env\<lparr>plot_results := None\<rparr>) sample_disk))) =
      [KLoad, KConstruct, KExecute] \<and>
    last (trace (snd (script (sample_env\<lparr>plot_results := None\<rparr>) sample_disk))) =
      (Execute sample_patch, Returned ()))"
proof -
  have completed: "fst (script sample_env sample_disk) = Returned ()"
    by (simp add: run_sample)
  have no_EOPatch: "EOPatch (sample_env\<lparr>EOPatch := None\<rparr>) = None"
    by simp
  have no_ReactivTask:
    "ReactivTask (sample_env\<lparr>ReactivTask := None\<rparr>) = None"
    "(Load ''../data/sentinel1_sample'' True, Returned ())
       \<in> set (trace (snd (script (sample_env\<lparr>ReactivTask := None\<rparr>) sample_disk)))"
    by (simp_all add: run_no_ReactivTask sample_trace_def)
  have task_bound: "ReactivTask (sample_env\<lparr>FeatureType := None\<rparr>) \<noteq> None"
    by (simp add: sample_env_def)
  have no_FeatureType:
    "FeatureType (sample_env\<lparr>FeatureType := None\<rparr>) = None"
    "(Load ''../data/sentinel1_sample'' True, Returned ())
       \<in> set (trace (snd (script (sample_env\<lparr>FeatureType := None\<rparr>) sample_disk)))"
    by (simp_all add: run_no_FeatureType sample_trace_def)
  have no_plot_results:
    "plot_results (sample_env\<lparr>plot_results := None\<rparr>) = None"
    "(Execute sample_patch, Returned ())
       \<in> set (trace (snd (script (sample_env\<lparr>plot_results := None\<rparr>) sample_disk)))"
    by (simp_all add: run_no_plot_results sample_trace_def)
  from completed unbound_name_fails_at_first_reference [of sample_env sample_disk]
  have first: "fst (script sample_env sample_disk) = Returned () \<and>
    EOPatch sample_env \<noteq> None \<and> FeatureType sample_env \<noteq> None \<and>
    ReactivTask sample_env \<noteq> None \<and> plot_results sample_env \<noteq> None"
    by blast
  from no_EOPatch
    unbound_name_fails_at_first_reference [of "sample_env\<lparr>EOPatch := None\<rparr>" sample_disk]
  have second: "EOPatch (sample_env\<lparr>EOPatch := None\<rparr>) = None \<and>
    fst (script (sample_env\<lparr>EOPatch := None\<rparr>) sample_disk) = Raised (NameError ''EOPatch'') \<and>
    trace (snd (script (sample_env\<lparr>EOPatch := None\<rparr>) sample_disk)) = []"
    by blast
  from no_ReactivTask
    unbound_name_fails_at_first_reference [of "sample_env\<lparr>ReactivTask := None\<rparr>" sample_disk]
  have third: "ReactivTask (sample_env\<lparr>ReactivTask := None\<rparr>) = None \<and>
    (Load ''../data/sentinel1_sample'' True, Returned ())
      \<in> set (trace (snd (script (sample_env\<lparr>ReactivTask := None\<rparr>) sample_disk))) \<and>
    fst (script (sample_env\<lparr>ReactivTask := None\<rparr>) sample_disk) =
      Raised (NameError ''ReactivTask'') \<and>
    trace (snd (script (sample_env\<lparr>ReactivTask := None\<rparr>) sample_disk)) =
      [(Load ''../data/sentinel1_sample'' True, Returned ())]"
    by blast
  from no_FeatureType task_bound
    unbound_name_fails_at_first_reference [of "sample_env\<lparr>FeatureType := None\<rparr>" sample_disk]
  have fourth: "FeatureType (sample_env\<lparr>FeatureType := None\<rparr>) = None \<and>
    ReactivTask (sample_env\<lparr>FeatureType := None\<rparr>) \<noteq> None \<and>
    (Load ''../data/sentinel1_sample'' True, Returned ())
      \<in> set (trace (snd (script (sample_env\<lparr>FeatureType := None\<rparr>) sample_disk))) \<and>
    fst (script (sample_env\<lparr>FeatureType := None\<rparr>) sample_disk) =
      Raised (NameError ''FeatureType'') \<and>
    trace (snd (script (sample_env\<lparr>FeatureType := None\<rparr>) sample_disk)) =
      [(Load ''../data/sentinel1_sample'' True, Returned ())]"
    by blast
  from no_plot_results
    unbound_name_fails_at_first_reference
      [of "sample_env\<lparr>plot_results := None\<rparr>" sample_disk sample_patch]
  have fifth: "plot_results (sample_env\<lparr>plot_results := None\<rparr>) = None \<and>
    (Execute sample_patch, Returned ())
      \<in> set (trace (snd (script (sample_env\<lparr>plot_results := None\<rparr>) sample_disk))) \<and>
    fst (script (sample_env\<lparr>plot_results := None\<rparr>) sample_disk) =
      Raised (NameError ''plot_results'') \<and>
    map (kind_of \<circ> fst) (trace (snd (script (sample_env\<lparr>plot_results := None\<rparr>) sample_disk))) =
      [KLoad, KConstruct, KExecute] \<and>
    last (trace (snd (script (sample_env\<lparr>plot_results := None\<rparr>) sample_disk))) =
      (Execute sample_patch, Returned ())"
    by blast
  from first second third fourth fifth show ?thesis
    by (intro conjI) blast+
qed

subsection \<open>The final subscript\<close>

text \<open>
  Claim C9. Provided the task's \<open>execute\<close> adds the output key it was configured with
  to the container it returns, the subscript on line 13 never raises \<^verbatim>\<open>KeyError\<close>:
  whenever a run reaches it, the container holds a layer under the key looked up and the
  subscript returns normally, because that key is the output key given on line 5.
\<close>

theorem final_subscript_succeeds:
  "execute_adds_output env \<Longrightarrow>
   (GetItem p k, st) \<in> set (trace (snd (script env w))) \<Longrightarrow>
   st = Returned () \<and> p k \<noteq> None"
  unfolding execute_adds_output_def
  by (cases rule: script_cases[of env w]) fastforce+

theorem final_subscript_succeeds_witness:
  "execute_adds_output sample_env \<and>
   (GetItem plotted_patch (''data_timeless'', ''speckle_variability''), Returned ())
     \<in> set (trace (snd (script sample_env sample_disk))) \<and>
   plotted_patch (''data_timeless'', ''speckle_variability'') \<noteq> None"
proof -
  have subscripted:
    "(GetItem plotted_patch (''data_timeless'', ''speckle_variability''), Returned ())
       \<in> set (trace (snd (script sample_env sample_disk)))"
    by (simp add: run_sample sample_trace_def)
  from final_subscript_succeeds [OF sample_adds_output subscripted]
    sample_adds_output subscripted
  show ?thesis
    by blast
qed

subsection \<open>Termination\<close>

text \<open>
  Claim C10. The script is a composition of finitely many steps, with no loop and no
  recursion, so the only way a run can fail to return is a library call that does not:
  the script never returns exactly when one of the calls it makes never returns. In
  particular it returns, normally or with an exception, whenever every call it makes
  returns.
\<close>

theorem script_diverges_iff_call_diverges:
  "fst (script env w) = Diverged \<longleftrightarrow>
   (\<exists>c. (c, Diverged) \<in> set (trace (snd (script env w))))"
  by (cases rule: script_cases[of env w]) auto

theorem script_diverges_iff_call_diverges_witness:
  "fst (script sample_env sample_disk) \<noteq> Diverged \<and>
   (\<nexists>c. (c, Diverged) \<in> set (trace (snd (script sample_env sample_disk)))) \<and>
   (Plot 6, Diverged)
     \<in> set (trace (snd (script (sample_env\<lparr>plot_results := Some hanging_plot\<rparr>) sample_disk))) \<and>
   fst (script (sample_env\<lparr>plot_results := Some hanging_plot\<rparr>) sample_disk) = Diverged"
proof -
  have returned: "fst (script sample_env sample_disk) \<noteq> Diverged"
    by (simp add: run_sample)
  have hangs:
    "(Plot 6, Diverged)
       \<in> set (trace (snd (script (sample_env\<lparr>plot_results := Some hanging_plot\<rparr>) sample_disk)))"
    by (simp add: run_hanging_plot)
  from returned hangs
    script_diverges_iff_call_diverges [of sample_env sample_disk]
    script_diverges_iff_call_diverges
      [of "sample_env\<lparr>plot_results := Some hanging_plot\<rparr>" sample_disk]
  show ?thesis
    by blast
qed

end
